theory Spec2Isabelle
  imports Complex_Main
begin

section \<open>Tensors and channel indexing\<close>

text \<open>
  The script \<^verbatim>\<open>scripts/convert_to_coreml2.py\<close> loads a checkpoint into a network,
  wraps the network in \<^verbatim>\<open>RGBWrapper\<close>, traces the wrapper and converts the trace.
  PyTorch, Real-ESRGAN and coremltools are not part of the repository. What the script
  itself computes with their values (tensor indexing, dictionary lookup, strict loading of a
  state dictionary) follows the documented behaviour of those operations; the network,
  the unpickler, the tracer, the converter and the package writer are parameters.

  A tensor is a list of sizes together with its elements in row-major (contiguous)
  order. The element type is left open: no property below depends on floating-point
  arithmetic.
\<close>

datatype error =
    FileNotFoundError
  | IndexError
  | KeyError
  | TypeError
  | RuntimeError
  | UnicodeEncodeError
  | LibraryError string

record 'a tensor =
  shape :: "nat list"
  data :: "'a list"

definition wf_tensor :: "'a tensor \<Rightarrow> bool" where
  "wf_tensor x \<longleftrightarrow> length (data x) = prod_list (shape x)"

text \<open>Row-major offset of a multi-index, and the element stored there.\<close>

definition offset :: "nat list \<Rightarrow> nat list \<Rightarrow> nat" where
  "offset sizes ix = foldl (\<lambda>acc (s, i). acc * s + i) 0 (zip sizes ix)"

definition elem :: "'a tensor \<Rightarrow> nat list \<Rightarrow> 'a" where
  "elem x ix = data x ! offset (shape x) ix"

text \<open>
  \<^verbatim>\<open>x[:, idx, :, :]\<close> with a list \<^verbatim>\<open>idx\<close> of non-negative channel numbers: for every
  batch entry, in order, the channels named by \<^verbatim>\<open>idx\<close>, in order, each copied whole.
  \<open>gather\<close> builds the elements; \<open>inner\<close> is the number of elements of one channel.
\<close>

definition gather :: "nat \<Rightarrow> nat \<Rightarrow> nat list \<Rightarrow> nat \<Rightarrow> 'a list \<Rightarrow> 'a list" where
  "gather B C idx inner d =
     concat (map (\<lambda>b.
       concat (map (\<lambda>i.
         map (\<lambda>j. d ! ((b * C + i) * inner + j)) [0 ..< inner]) idx)) [0 ..< B])"

text \<open>
  Four subscripts need at least four dimensions; fewer are an \<^verbatim>\<open>IndexError\<close>. PyTorch
  checks a channel number against the channel count when it copies an element, so a
  channel number that is too large raises \<^verbatim>\<open>IndexError\<close> only if the result has
  elements; a result without elements is returned unchecked. Indexing a channel dimension
  of size 0 with a non-empty list is refused before any copying.
\<close>

definition index_channels :: "nat list \<Rightarrow> 'a tensor \<Rightarrow> error + 'a tensor" where
  "index_channels idx x =
     (case shape x of
        B # C # H # W # rest \<Rightarrow>
          if C = 0 \<and> idx \<noteq> [] then Inl IndexError
          else if B * length idx * (H * W * prod_list rest) = 0 \<or> list_all (\<lambda>i. i < C) idx
          then Inr \<lparr>shape = B # length idx # H # W # rest,
                    data = gather B C idx (H * W * prod_list rest) (data x)\<rparr>
          else Inl IndexError
      | _ \<Rightarrow> Inl IndexError)"

text \<open>
  \<^verbatim>\<open>.contiguous()\<close> changes the memory layout only; in this representation every tensor
  already lists its elements in row-major order.
\<close>

definition contiguous :: "'a tensor \<Rightarrow> 'a tensor" where
  "contiguous x = x"

text \<open>
  \<^verbatim>\<open>RGBWrapper.forward\<close>, for a base model given as a function that may raise:
  \<^verbatim>\<open>
    x = x[:, [2,1,0], :, :].contiguous()
    out = self.model(x)
    out = out[:, [2,1,0], :, :].contiguous()
    return out
  \<close>
\<close>

definition forward :: "('a tensor \<Rightarrow> error + 'a tensor) \<Rightarrow> 'a tensor \<Rightarrow> error + 'a tensor" where
  "forward model x =
     (case index_channels [2, 1, 0] x of
        Inl e \<Rightarrow> Inl e
      | Inr x1 \<Rightarrow>
          (case model (contiguous x1) of
             Inl e \<Rightarrow> Inl e
           | Inr out \<Rightarrow>
               (case index_channels [2, 1, 0] out of
                  Inl e \<Rightarrow> Inl e
                | Inr out1 \<Rightarrow> Inr (contiguous out1))))"

text \<open>
  The permutation in the words of the specification: \<open>y\<close> is \<open>x\<close> with the first and the
  third channel swapped. Both are 4-D with 3 channels and the same sizes, and every
  element of \<open>y\<close> is the element of \<open>x\<close> at the same batch entry, row and column of the
  swapped channel.
\<close>

definition swaps_first_third :: "'a tensor \<Rightarrow> 'a tensor \<Rightarrow> bool" where
  "swaps_first_third x y \<longleftrightarrow>
     (case shape x of
        [B, C, H, W] \<Rightarrow>
          C = 3 \<and> shape y = shape x \<and> length (data y) = B * 3 * H * W \<and>
          (\<forall>b < B. \<forall>h < H. \<forall>w < W.
             elem y [b, 0, h, w] = elem x [b, 2, h, w] \<and>
             elem y [b, 1, h, w] = elem x [b, 1, h, w] \<and>
             elem y [b, 2, h, w] = elem x [b, 0, h, w])
      | _ \<Rightarrow> False)"

section \<open>Checkpoints and weight loading\<close>

text \<open>
  What \<^verbatim>\<open>torch.load\<close> returns for a checkpoint file: a dictionary from strings to
  tensors, nested dictionaries or other pickled values. Dictionaries keep insertion order
  (a state dictionary is an \<^verbatim>\<open>OrderedDict\<close>), so they are association lists.
\<close>

datatype 'a pyobj =
    PTensor "'a tensor"
  | PDict "(string \<times> 'a pyobj) list"
  | POther

type_synonym 'a dict = "(string \<times> 'a pyobj) list"

definition py_contains :: "string \<Rightarrow> 'a dict \<Rightarrow> bool" where
  \<comment> \<open>\<^verbatim>\<open>k in d\<close>\<close>
  "py_contains k d \<longleftrightarrow> k \<in> set (map fst d)"

definition py_getitem :: "'a dict \<Rightarrow> string \<Rightarrow> error + 'a pyobj" where
  \<comment> \<open>\<^verbatim>\<open>d[k]\<close>\<close>
  "py_getitem d k = (case map_of d k of None \<Rightarrow> Inl KeyError | Some v \<Rightarrow> Inr v)"

text \<open>
  \<^verbatim>\<open>
    if 'params' in ckpt:
        ckpt = ckpt['params']
  \<close>
  The result is the object handed to \<^verbatim>\<open>load_state_dict\<close>.
\<close>

definition select_state_dict :: "'a dict \<Rightarrow> error + 'a pyobj" where
  "select_state_dict ckpt =
     (if py_contains ''params'' ckpt then py_getitem ckpt ''params'' else Inr (PDict ckpt))"

text \<open>
  The network object: the constructor's arguments, the named parameters and the
  training flag.
\<close>

record arch_config =
  num_in_ch :: nat
  num_out_ch :: nat
  num_feat :: nat
  num_conv :: nat
  upscale :: nat
  act_type :: string

record 'a module =
  config :: arch_config
  params :: "(string \<times> 'a tensor) list"
  training :: bool

text \<open>
  \<^verbatim>\<open>torch.nn.Module.load_state_dict(state_dict, strict)\<close> is PyTorch's; the definition
  follows its documented behaviour. A state dictionary that is not a mapping is a
  \<^verbatim>\<open>TypeError\<close>. A parameter absent from the dictionary is a missing key, a key naming
  no parameter is an unexpected key, and an entry that is no tensor or has another shape
  than the parameter is a mismatch. A mismatch always raises \<^verbatim>\<open>RuntimeError\<close>; missing
  and unexpected keys raise it when \<^verbatim>\<open>strict\<close> is set. Otherwise every parameter present
  in the dictionary is overwritten with the dictionary's tensor. All tensors here have
  one element type, so the conversion of a checkpoint of another dtype into the
  parameter's does not arise; PyTorch's acceptance of a one-element 1-D tensor for a
  0-dimensional parameter is not modelled (the script's network has no such parameter).
\<close>

definition missing_keys :: "'a module \<Rightarrow> 'a dict \<Rightarrow> string list" where
  "missing_keys m sd = filter (\<lambda>k. k \<notin> set (map fst sd)) (map fst (params m))"

definition unexpected_keys :: "'a module \<Rightarrow> 'a dict \<Rightarrow> string list" where
  "unexpected_keys m sd = filter (\<lambda>k. k \<notin> set (map fst (params m))) (map fst sd)"

definition mismatched :: "'a dict \<Rightarrow> string \<times> 'a tensor \<Rightarrow> bool" where
  "mismatched sd kp =
     (case map_of sd (fst kp) of
        None \<Rightarrow> False
      | Some (PTensor t) \<Rightarrow> shape t \<noteq> shape (snd kp)
      | Some _ \<Rightarrow> True)"

definition copy_param :: "'a dict \<Rightarrow> string \<times> 'a tensor \<Rightarrow> string \<times> 'a tensor" where
  "copy_param sd kp =
     (case map_of sd (fst kp) of
        Some (PTensor t) \<Rightarrow> (fst kp, t)
      | _ \<Rightarrow> kp)"

definition load_state_dict :: "'a module \<Rightarrow> 'a pyobj \<Rightarrow> bool \<Rightarrow> error + 'a module" where
  "load_state_dict m state_dict strict =
     (case state_dict of
        PDict sd \<Rightarrow>
          if filter (mismatched sd) (params m) \<noteq> []
             \<or> (strict \<and> (unexpected_keys m sd \<noteq> [] \<or> missing_keys m sd \<noteq> []))
          then Inl RuntimeError
          else Inr (m\<lparr>params := map (copy_param sd) (params m)\<rparr>)
      | _ \<Rightarrow> Inl TypeError)"

definition eval :: "'a module \<Rightarrow> 'a module" where
  \<comment> \<open>\<^verbatim>\<open>model.eval()\<close>\<close>
  "eval m = m\<lparr>training := False\<rparr>"

section \<open>The conversion call\<close>

datatype color_layout = RGB | BGR | GRAYSCALE

datatype dtype = Float16 | Float32 | Int32

datatype compute_unit = CU_ALL | CU_CPU_ONLY | CU_CPU_AND_GPU | CU_CPU_AND_NE

text \<open>
  The keyword arguments of \<^verbatim>\<open>ct.ImageType\<close>, \<^verbatim>\<open>ct.TensorType\<close> and \<^verbatim>\<open>ct.convert\<close>
  that the script passes. The scale is the number the expression \<^verbatim>\<open>1/255.0\<close> denotes;
  its rounding to a double is not modelled.
\<close>

record image_type =
  image_name :: string
  image_shape :: "nat list"
  image_scale :: real
  image_bias :: "real list"
  image_color_layout :: color_layout

record tensor_type =
  tensor_name :: string
  tensor_dtype :: dtype

record convert_kwargs =
  inputs :: "image_type list"
  outputs :: "tensor_type list"
  compute_units :: compute_unit

definition convert_args :: "'a tensor \<Rightarrow> convert_kwargs" where
  "convert_args example_input =
     \<lparr>inputs = [\<lparr>image_name = ''input_image'',
                  image_shape = shape example_input,
                  image_scale = 1 / 255,
                  image_bias = [0, 0, 0],
                  image_color_layout = RGB\<rparr>],
      outputs = [\<lparr>tensor_name = ''output_image'', tensor_dtype = Float32\<rparr>],
      compute_units = CU_ALL\<rparr>"

section \<open>The script\<close>

text \<open>
  The process state the script runs in: the files it can name, standard output, the
  command line and the environment variables. \<open>events\<close> records every call the script
  makes, in order; it is the only part that is not a piece of the real process.
\<close>

datatype event =
    EvConstruct
  | EvLoad string
  | EvLoadStateDict bool
  | EvEval
  | EvWrap
  | EvRand "nat list"
  | EvTrace "nat list list"
  | EvConvert convert_kwargs
  | EvSave string
  | EvPrint string

record 'b world =
  files :: "string \<rightharpoonup> 'b"
  stdout :: "string list"
  argv :: "string list"
  environ :: "string \<rightharpoonup> string"
  events :: "event list"

text \<open>
  The libraries the script calls are parameters, each a function of the arguments the
  script passes to it: the architecture's initial parameters and its forward pass, the
  unpickler behind \<^verbatim>\<open>torch.load\<close>, the random generator's samples, the tracer, the
  converter, the package writer (which also sees the file system) and the encoding the
  interpreter gives standard output in an environment. \<open>'a\<close> is the element type of
  tensors, \<open>'b\<close> the content of a file, \<open>'g\<close> a traced graph and \<open>'m\<close> a converted model.
\<close>

record ('a, 'b, 'g, 'm) libs =
  init_params :: "arch_config \<Rightarrow> (string \<times> 'a tensor) list"
  net_forward :: "'a module \<Rightarrow> 'a tensor \<Rightarrow> error + 'a tensor"
  unpickle :: "'b \<Rightarrow> error + 'a dict"
  sample :: "nat \<Rightarrow> 'a"
  jit_trace :: "('a tensor \<Rightarrow> error + 'a tensor) \<Rightarrow> 'a tensor \<Rightarrow> error + 'g"
  ct_convert :: "'g \<Rightarrow> convert_kwargs \<Rightarrow> error + 'm"
  write_package :: "'m \<Rightarrow> string \<Rightarrow> (string \<rightharpoonup> 'b) \<Rightarrow> (error \<times> 'b option) + 'b"
  stdout_encodes :: "(string \<rightharpoonup> string) \<Rightarrow> string \<Rightarrow> bool"

text \<open>
  A statement either raises or yields a value, and leaves a process state behind in both
  cases. \<open>then_do\<close> is sequencing: an exception skips everything after it.
\<close>

type_synonym ('b, 'r) stmt = "'b world \<Rightarrow> (error + 'r) \<times> 'b world"

definition then_do :: "('b, 'r) stmt \<Rightarrow> ('r \<Rightarrow> ('b, 'q) stmt) \<Rightarrow> ('b, 'q) stmt" where
  "then_do s f w = (case s w of (Inl e, w') \<Rightarrow> (Inl e, w') | (Inr r, w') \<Rightarrow> f r w')"

definition call :: "event \<Rightarrow> error + 'r \<Rightarrow> ('b, 'r) stmt" where
  \<comment> \<open>a call that touches nothing of the process state: it is recorded, and raises or returns\<close>
  "call ev r w = (r, w\<lparr>events := events w @ [ev]\<rparr>)"

definition ckpt_path :: string where
  "ckpt_path = ''weights/realesr-general-x4v3.pth''"

definition out_path :: string where
  "out_path = ''RealESRGAN_x4v3_tensor.mlpackage''"

definition done_message :: string where
  \<comment> \<open>the printed line, as UTF-8 bytes\<close>
  "done_message =
     map char_of [0xE5, 0xA4, 0x89, 0xE6, 0x8F, 0x9B, 0xE5, 0xAE, 0x8C, 0xE4, 0xBA, 0x86 :: nat]
       @ '': RealESRGAN_x4v3_tensor.mlpackage''"

definition cfg :: arch_config where
  "cfg = \<lparr>num_in_ch = 3, num_out_ch = 3, num_feat = 64, num_conv = 32, upscale = 4,
          act_type = ''prelu''\<rparr>"

definition SRVGGNetCompact :: "('a, 'b, 'g, 'm) libs \<Rightarrow> arch_config \<Rightarrow> 'a module" where
  \<comment> \<open>a new module is in training mode\<close>
  "SRVGGNetCompact L c = \<lparr>config = c, params = init_params L c, training = True\<rparr>"

definition torch_load :: "('a, 'b, 'g, 'm) libs \<Rightarrow> string \<Rightarrow> ('b, 'a dict) stmt" where
  "torch_load L path w =
     call (EvLoad path)
       (case files w path of None \<Rightarrow> Inl FileNotFoundError | Some content \<Rightarrow> unpickle L content) w"

definition RGBWrapper :: "('a, 'b, 'g, 'm) libs \<Rightarrow> 'a module \<Rightarrow> 'a tensor \<Rightarrow> error + 'a tensor" where
  "RGBWrapper L m = forward (net_forward L m)"

definition torch_rand :: "('a, 'b, 'g, 'm) libs \<Rightarrow> nat list \<Rightarrow> 'a tensor" where
  "torch_rand L sizes = \<lparr>shape = sizes, data = map (sample L) [0 ..< prod_list sizes]\<rparr>"

text \<open>
  \<^verbatim>\<open>mlmodel.save(path)\<close>: whether the package gets written depends on the model and on
  the file system. Success puts the package at the path; a failure leaves there whatever
  the writer had got to (nothing, the old package or a part of the new one).
\<close>

definition save :: "('a, 'b, 'g, 'm) libs \<Rightarrow> 'm \<Rightarrow> string \<Rightarrow> ('b, unit) stmt" where
  "save L mlmodel path w =
     (let w1 = w\<lparr>events := events w @ [EvSave path]\<rparr> in
      case write_package L mlmodel path (files w) of
        Inl (e, left) \<Rightarrow> (Inl e, w1\<lparr>files := (files w)(path := left)\<rparr>)
      | Inr package \<Rightarrow> (Inr (), w1\<lparr>files := (files w)(path \<mapsto> package)\<rparr>))"

text \<open>
  \<^verbatim>\<open>print\<close> encodes the line for standard output and raises \<^verbatim>\<open>UnicodeEncodeError\<close>,
  writing nothing, when the encoding lacks one of its characters. The environment decides
  the encoding: \<^verbatim>\<open>PYTHONIOENCODING=ascii\<close> makes it ASCII; for every other environment
  it is what the interpreter picks, the parameter \<open>stdout_encodes\<close>.
\<close>

definition ascii_only :: "string \<Rightarrow> bool" where
  "ascii_only line \<longleftrightarrow> list_all (\<lambda>c. of_char c < (128 :: nat)) line"

definition stdout_can_encode :: "('a, 'b, 'g, 'm) libs \<Rightarrow> (string \<rightharpoonup> string) \<Rightarrow> string \<Rightarrow> bool" where
  "stdout_can_encode L env line \<longleftrightarrow>
     (if env ''PYTHONIOENCODING'' = Some ''ascii'' then ascii_only line
      else stdout_encodes L env line)"

definition print :: "('a, 'b, 'g, 'm) libs \<Rightarrow> string \<Rightarrow> ('b, unit) stmt" where
  "print L line w =
     (let w1 = w\<lparr>events := events w @ [EvPrint line]\<rparr> in
      if stdout_can_encode L (environ w) line
      then (Inr (), w1\<lparr>stdout := stdout w @ [line]\<rparr>)
      else (Inl UnicodeEncodeError, w1))"

text \<open>The module-level statements of the script, top to bottom.\<close>

definition script :: "('a, 'b, 'g, 'm) libs \<Rightarrow> ('b, unit) stmt" where
  "script L =
     then_do (call EvConstruct (Inr (SRVGGNetCompact L cfg))) (\<lambda>model.
     then_do (torch_load L ckpt_path) (\<lambda>ckpt.
     then_do (\<lambda>w. (select_state_dict ckpt, w)) (\<lambda>ckpt.
     then_do (call (EvLoadStateDict True) (load_state_dict model ckpt True)) (\<lambda>model.
     then_do (call EvEval (Inr (eval model))) (\<lambda>model.
     then_do (call EvWrap (Inr (RGBWrapper L model))) (\<lambda>wrapped_model.
     then_do (call (EvRand [1, 3, 64, 64]) (Inr (torch_rand L [1, 3, 64, 64]))) (\<lambda>example_input.
     then_do (call (EvTrace [shape example_input]) (jit_trace L wrapped_model example_input)) (\<lambda>traced_model.
     then_do (call (EvConvert (convert_args example_input))
                (ct_convert L traced_model (convert_args example_input))) (\<lambda>mlmodel.
     then_do (save L mlmodel out_path) (\<lambda>_.
     print L done_message))))))))))"

text \<open>
  The calls of a complete run, in the order of the script's statements, and the calls
  that a run from \<open>w\<close> adds to the record.
\<close>

definition declared :: convert_kwargs where
  "declared =
     \<lparr>inputs = [\<lparr>image_name = ''input_image'',
                  image_shape = [1, 3, 64, 64],
                  image_scale = 1 / 255,
                  image_bias = [0, 0, 0],
                  image_color_layout = RGB\<rparr>],
      outputs = [\<lparr>tensor_name = ''output_image'', tensor_dtype = Float32\<rparr>],
      compute_units = CU_ALL\<rparr>"

definition stage_events :: "event list" where
  "stage_events =
     [EvConstruct, EvLoad ckpt_path, EvLoadStateDict True, EvEval, EvWrap,
      EvRand [1, 3, 64, 64], EvTrace [[1, 3, 64, 64]], EvConvert declared,
      EvSave out_path, EvPrint done_message]"

definition logged :: "nat \<Rightarrow> 'b world \<Rightarrow> 'b world" where
  "logged n w = w\<lparr>events := events w @ take n stage_events\<rparr>"

definition trace_of :: "('a, 'b, 'g, 'm) libs \<Rightarrow> 'b world \<Rightarrow> event list" where
  "trace_of L w = drop (length (events w)) (events (snd (script L w)))"

definition fails_without_saving :: "('a, 'b, 'g, 'm) libs \<Rightarrow> 'b world \<Rightarrow> error \<Rightarrow> bool" where
  "fails_without_saving L w e \<longleftrightarrow>
     fst (script L w) = Inl e \<and>
     files (snd (script L w)) = files w \<and>
     list_all (\<lambda>ev. case ev of EvSave p \<Rightarrow> False | _ \<Rightarrow> True) (trace_of L w)"

subsection \<open>A small instance\<close>

text \<open>
  Libraries and a process state small enough to run the script by hand: a network with a
  single two-element parameter whose forward pass keeps the first two elements of its
  input and clears the rest, a checkpoint file in the nested layout, a tracer that
  records the example's shape, a converter that pairs the graph with its declaration, a
  writer that always succeeds and a standard output that encodes every line unless the
  environment makes it ASCII.
\<close>

definition demo_libs :: "(int, string, nat list, nat list \<times> convert_kwargs) libs" where
  "demo_libs =
     \<lparr>init_params = (\<lambda>c. [(''body.0.weight'', \<lparr>shape = [2], data = [0, 0]\<rparr>)]),
      net_forward = (\<lambda>m x.
        Inr (x\<lparr>data := take 2 (data x) @ replicate (length (data x) - 2) 0\<rparr>)),
      unpickle = (\<lambda>content.
        if content = ''nested''
        then Inr [(''params'', PDict [(''body.0.weight'', PTensor \<lparr>shape = [2], data = [7, 9]\<rparr>)]),
                  (''iter'', POther)]
        else if content = ''raw''
        then Inr [(''body.0.weight'', PTensor \<lparr>shape = [2], data = [7, 9]\<rparr>),
                  (''body.1.weight'', PTensor \<lparr>shape = [2], data = [8, 8]\<rparr>)]
        else Inl (LibraryError ''UnpicklingError'')),
      sample = (\<lambda>i. 0),
      jit_trace = (\<lambda>f x. Inr (shape x)),
      ct_convert = (\<lambda>g k. Inr (g, k)),
      write_package = (\<lambda>m path fs. Inr ''package''),
      stdout_encodes = (\<lambda>env line. True)\<rparr>"

definition demo_world :: "string \<Rightarrow> string world" where
  "demo_world content =
     \<lparr>files = [ckpt_path \<mapsto> content], stdout = [], argv = [''convert_to_coreml2.py''],
      environ = Map.empty, events = []\<rparr>"

section \<open>Properties of the channel permutation\<close>

lemma concat_nth_uniform:
  "\<forall>l \<in> set xss. length l = m \<Longrightarrow> i < length xss \<Longrightarrow> j < m \<Longrightarrow>
     concat xss ! (i * m + j) = xss ! i ! j"
proof (induction xss arbitrary: i)
  case Nil
  then show ?case by simp
next
  case (Cons l xss)
  show ?case
  proof (cases i)
    case 0
    with Cons.prems show ?thesis by (simp add: nth_append)
  next
    case (Suc i')
    with Cons.prems have "concat xss ! (i' * m + j) = xss ! i' ! j"
      by (intro Cons.IH) auto
    with Suc Cons.prems show ?thesis by (simp add: nth_append)
  qed
qed

lemma length_concat_uniform:
  "\<forall>l \<in> set xss. length l = m \<Longrightarrow> length (concat xss) = length xss * m"
  by (induction xss) auto

lemma length_gather: "length (gather B C idx inner d) = B * length idx * inner"
proof -
  have blk: "length (concat (map (\<lambda>i. map (\<lambda>j. d ! ((b * C + i) * inner + j)) [0 ..< inner]) idx))
      = length idx * inner" for b
    by (subst length_concat_uniform [where m = inner]) auto
  show ?thesis
    unfolding gather_def
    by (subst length_concat_uniform [where m = "length idx * inner"]) (auto simp: blk)
qed

lemma gather_nth:
  assumes "b < B" "c < length idx" "j < inner"
  shows "gather B C idx inner d ! ((b * length idx + c) * inner + j)
           = d ! ((b * C + idx ! c) * inner + j)"
proof -
  let ?row = "\<lambda>b i. map (\<lambda>j. d ! ((b * C + i) * inner + j)) [0 ..< inner]"
  let ?blk = "\<lambda>b. concat (map (?row b) idx)"
  have len_blk: "length (?blk b) = length idx * inner" for b
    by (subst length_concat_uniform [where m = inner]) auto
  have in_blk: "?blk b ! (c * inner + j) = d ! ((b * C + idx ! c) * inner + j)"
    using assms by (subst concat_nth_uniform [where m = inner]) auto
  have "c * inner + j < length idx * inner"
  proof -
    have "c * inner + j < Suc c * inner" using assms(3) by simp
    also have "\<dots> \<le> length idx * inner" using assms(2) by (intro mult_le_mono1) simp
    finally show ?thesis .
  qed
  then have out: "concat (map ?blk [0 ..< B]) ! (b * (length idx * inner) + (c * inner + j))
      = ?blk b ! (c * inner + j)"
    using assms(1) by (subst concat_nth_uniform [where m = "length idx * inner"]) (auto simp: len_blk)
  have split: "(b * length idx + c) * inner + j = b * (length idx * inner) + (c * inner + j)"
    by (simp add: algebra_simps)
  show ?thesis
    by (simp only: gather_def split out in_blk)
qed

lemma gather_nth_len:
  assumes "length idx = n" "b < B" "c < n" "j < inner"
  shows "gather B C idx inner d ! ((b * n + c) * inner + j) = d ! ((b * C + idx ! c) * inner + j)"
  using assms gather_nth [of b B c idx j inner C d] by simp

lemma length_gather_swap: "length (gather B C [2, 1, 0] inner d) = B * 3 * inner"
  by (simp add: length_gather)

lemma decode_index:
  assumes "(k::nat) < B * n * inner"
  obtains b c j where "b < B" "c < n" "j < inner" "k = (b * n + c) * inner + j"
proof -
  have pos: "0 < inner" "0 < n" using assms by (auto intro: Nat.gr0I)
  let ?q = "k div inner"
  have q: "?q < B * n" using assms pos by (simp add: less_mult_imp_div_less)
  have "?q div n < B" using q pos by (simp add: less_mult_imp_div_less)
  moreover have "?q mod n < n" using pos by simp
  moreover have "k mod inner < inner" using pos by simp
  moreover have "k = (?q div n * n + ?q mod n) * inner + k mod inner" by simp
  ultimately show ?thesis using that by blast
qed

lemma swap_index_facts:
  assumes "c < 3"
  shows "[2, 1, 0 :: nat] ! c < 3" and "[2, 1, 0 :: nat] ! ([2, 1, 0] ! c) = c"
proof -
  from assms consider "c = 0" | "c = 1" | "c = 2" by linarith
  then show "[2, 1, 0 :: nat] ! c < 3" by cases simp_all
  from assms consider "c = 0" | "c = 1" | "c = 2" by linarith
  then show "[2, 1, 0 :: nat] ! ([2, 1, 0] ! c) = c" by cases simp_all
qed

lemma gather_swap_twice:
  assumes "length d = B * 3 * inner"
  shows "gather B 3 [2, 1, 0] inner (gather B 3 [2, 1, 0] inner d) = d"
proof (rule nth_equalityI)
  show "length (gather B 3 [2, 1, 0] inner (gather B 3 [2, 1, 0] inner d)) = length d"
    using assms by (simp only: length_gather_swap)
next
  fix k
  assume "k < length (gather B 3 [2, 1, 0] inner (gather B 3 [2, 1, 0] inner d))"
  then have "k < B * 3 * inner" by (simp only: length_gather_swap)
  then obtain b c j where bcj: "b < B" "c < 3" "j < inner" "k = (b * 3 + c) * inner + j"
    by (rule decode_index)
  let ?g = "gather B 3 [2, 1, 0] inner"
  have "?g (?g d) ! ((b * 3 + c) * inner + j) = ?g d ! ((b * 3 + [2, 1, 0] ! c) * inner + j)"
    using bcj by (intro gather_nth_len) simp_all
  also have "\<dots> = d ! ((b * 3 + [2, 1, 0] ! ([2, 1, 0] ! c)) * inner + j)"
    using bcj swap_index_facts(1) [of c] by (intro gather_nth_len) simp_all
  also have "\<dots> = d ! ((b * 3 + c) * inner + j)"
    using bcj by (simp only: swap_index_facts(2))
  finally show "?g (?g d) ! k = d ! k"
    by (simp only: bcj(4))
qed

lemma index_channels_3:
  assumes "shape x = B # 3 # H # W # rest"
  shows "index_channels [2, 1, 0] x =
           Inr \<lparr>shape = B # 3 # H # W # rest,
                data = gather B 3 [2, 1, 0] (H * W * prod_list rest) (data x)\<rparr>"
  using assms by (simp add: index_channels_def)

lemma offset4: "offset [B, C, H, W] [b, c, h, w] = ((b * C + c) * H + h) * W + w"
  by (simp add: offset_def)

lemma gathered_length: "length (gather B 3 [2, 1, 0] (H * W * prod_list []) d) = B * 3 * H * W"
proof -
  have "length (gather B 3 [2, 1, 0] (H * W * prod_list []) d) = B * 3 * (H * W * prod_list [])"
    by (simp only: length_gather_swap)
  then show ?thesis
    by (simp add: mult.assoc)
qed

lemma gathered_elem:
  assumes "shape x = [B, 3, H, W]" and "b < B" "c < 3" "h < H" "w < W"
  shows "elem \<lparr>shape = [B, 3, H, W],
               data = gather B 3 [2, 1, 0] (H * W * prod_list []) (data x)\<rparr> [b, c, h, w]
           = elem x [b, [2, 1, 0] ! c, h, w]"
proof -
  let ?inner = "H * W * prod_list []"
  have "h * W + w < Suc h * W" using assms(5) by simp
  also have "\<dots> \<le> H * W" using assms(4) by (intro mult_le_mono1) simp
  finally have j: "h * W + w < ?inner" by simp
  have g: "gather B 3 [2, 1, 0] ?inner (data x) ! ((b * 3 + c) * ?inner + (h * W + w))
      = data x ! ((b * 3 + [2, 1, 0] ! c) * ?inner + (h * W + w))"
    using assms j by (intro gather_nth_len) simp_all
  have sp: "((b * 3 + c') * H + h) * W + w = (b * 3 + c') * ?inner + (h * W + w)" for c'
    by (simp add: algebra_simps)
  have "elem \<lparr>shape = [B, 3, H, W], data = gather B 3 [2, 1, 0] ?inner (data x)\<rparr> [b, c, h, w]
      = gather B 3 [2, 1, 0] ?inner (data x) ! (((b * 3 + c) * H + h) * W + w)"
    by (simp add: elem_def offset4)
  also have "\<dots> = data x ! ((b * 3 + [2, 1, 0] ! c) * ?inner + (h * W + w))"
    by (simp only: sp g)
  also have "\<dots> = elem x [b, [2, 1, 0] ! c, h, w]"
    by (simp only: elem_def assms(1) offset4 sp)
  finally show ?thesis .
qed

lemma index_channels_swaps:
  assumes "shape x = [B, 3, H, W]"
  shows "\<exists>y. index_channels [2, 1, 0] x = Inr y \<and> swaps_first_third x y"
proof -
  let ?y = "\<lparr>shape = [B, 3, H, W],
             data = gather B 3 [2, 1, 0] (H * W * prod_list []) (data x)\<rparr>"
  have y: "index_channels [2, 1, 0] x = Inr ?y"
    using assms by (rule index_channels_3)
  have "elem ?y [b, 0, h, w] = elem x [b, 2, h, w] \<and>
        elem ?y [b, 1, h, w] = elem x [b, 1, h, w] \<and>
        elem ?y [b, 2, h, w] = elem x [b, 0, h, w]" if "b < B" "h < H" "w < W" for b h w
    using gathered_elem [OF assms that(1) _ that(2,3), of 0]
      gathered_elem [OF assms that(1) _ that(2,3), of 1]
      gathered_elem [OF assms that(1) _ that(2,3), of 2]
    by simp
  moreover have "length (data ?y) = B * 3 * H * W"
    by (simp only: tensor.select_convs gathered_length)
  ultimately have "swaps_first_third x ?y"
    using assms by (simp add: swaps_first_third_def)
  with y show ?thesis by blast
qed

text \<open>
  Claim C1. For every 4-D input \<open>x\<close> with 3 channels, indexing by [2,1,0] yields \<open>px\<close>,
  which is \<open>x\<close> with the first and third channel swapped, and \<open>forward\<close> hands \<open>px\<close> to
  the base model and indexes the model's output by [2,1,0] again: an error of the model or
  of that indexing is the result, and an output with 3 channels comes back with its first
  and third channel swapped.
\<close>

theorem forward_permute_model_permute:
  assumes "shape x = [B, 3, H, W]"
  shows "\<exists>px. index_channels [2, 1, 0] x = Inr px \<and> swaps_first_third x px \<and>
           forward model x =
             (case model px of Inl e \<Rightarrow> Inl e | Inr out \<Rightarrow> index_channels [2, 1, 0] out) \<and>
           (\<forall>out B' H' W'. model px = Inr out \<and> shape out = [B', 3, H', W'] \<longrightarrow>
              (\<exists>y. forward model x = Inr y \<and> swaps_first_third out y))"
proof -
  from index_channels_swaps [OF assms] obtain px
    where px: "index_channels [2, 1, 0] x = Inr px" "swaps_first_third x px"
    by blast
  have fw: "forward model x =
      (case model px of Inl e \<Rightarrow> Inl e | Inr out \<Rightarrow> index_channels [2, 1, 0] out)"
    using px(1) by (simp add: forward_def contiguous_def split: sum.splits)
  have "\<exists>y. forward model x = Inr y \<and> swaps_first_third out y"
    if "model px = Inr out \<and> shape out = [B', 3, H', W']" for out B' H' W'
  proof -
    from that index_channels_swaps [of out B' H' W'] obtain y
      where "index_channels [2, 1, 0] out = Inr y" "swaps_first_third out y"
      by blast
    with that fw show ?thesis by simp
  qed
  with px fw show ?thesis by blast
qed

theorem forward_permute_model_permute_witness:
  "shape \<lparr>shape = [1, 3, 1, 2], data = [1, 2, 3, 4, 5, 6 :: int]\<rparr> = [1, 3, 1, 2] \<and>
   swaps_first_third \<lparr>shape = [1, 3, 1, 2], data = [1, 2, 3, 4, 5, 6 :: int]\<rparr>
     \<lparr>shape = [1, 3, 1, 2], data = [5, 6, 3, 4, 1, 2]\<rparr> \<and>
   forward (\<lambda>t. Inr (t\<lparr>data := take 2 (data t) @ [0, 0, 0, 0]\<rparr>))
       \<lparr>shape = [1, 3, 1, 2], data = [1, 2, 3, 4, 5, 6 :: int]\<rparr>
     = Inr \<lparr>shape = [1, 3, 1, 2], data = [0, 0, 0, 0, 5, 6]\<rparr>"
proof -
  let ?x = "\<lparr>shape = [1, 3, 1, 2], data = [1, 2, 3, 4, 5, 6 :: int]\<rparr>"
  let ?px = "\<lparr>shape = [1, 3, 1, 2], data = [5, 6, 3, 4, 1, 2 :: int]\<rparr>"
  let ?first = "\<lambda>t :: int tensor. Inr (t\<lparr>data := take 2 (data t) @ [0, 0, 0, 0]\<rparr>) :: error + int tensor"
  have sh: "shape ?x = [1, 3, 1, 2]" by simp
  have ix: "index_channels [2, 1, 0] ?x = Inr ?px"
    by (simp add: index_channels_def gather_def upt_conv_Cons)
  from forward_permute_model_permute [OF sh, of ?first] ix
  have sw: "swaps_first_third ?x ?px"
    and fw: "forward ?first ?x =
      (case ?first ?px of Inl e \<Rightarrow> Inl e | Inr out \<Rightarrow> index_channels [2, 1, 0] out)"
    by auto
  from fw have "forward ?first ?x = Inr \<lparr>shape = [1, 3, 1, 2], data = [0, 0, 0, 0, 5, 6]\<rparr>"
    by (simp add: index_channels_def gather_def upt_conv_Cons)
  with sh sw show ?thesis by simp
qed

text \<open>
  Claim C8. On a tensor with 3 channels the permutation by [2,1,0] is an involution, and
  around the identity base model \<open>forward\<close> is the identity.
\<close>

theorem permutation_involution:
  assumes "shape x = B # 3 # H # W # rest" and "wf_tensor x"
  shows "(\<exists>y. index_channels [2, 1, 0] x = Inr y \<and> index_channels [2, 1, 0] y = Inr x) \<and>
         forward Inr x = Inr x"
proof -
  let ?inner = "H * W * prod_list rest"
  let ?y = "\<lparr>shape = B # 3 # H # W # rest, data = gather B 3 [2, 1, 0] ?inner (data x)\<rparr>"
  have len: "length (data x) = B * 3 * ?inner"
    using assms by (simp add: wf_tensor_def algebra_simps)
  have y: "index_channels [2, 1, 0] x = Inr ?y"
    using assms(1) by (rule index_channels_3)
  have "index_channels [2, 1, 0] ?y =
      Inr \<lparr>shape = B # 3 # H # W # rest,
           data = gather B 3 [2, 1, 0] ?inner (gather B 3 [2, 1, 0] ?inner (data x))\<rparr>"
    by (simp add: index_channels_def)
  also have "\<dots> = Inr x"
    using assms(1) gather_swap_twice [OF len] by simp
  finally have again: "index_channels [2, 1, 0] ?y = Inr x" .
  from y again show ?thesis
    by (auto simp: forward_def contiguous_def)
qed

theorem permutation_involution_witness:
  "shape \<lparr>shape = [2, 3, 1, 1], data = ''rgbRGB''\<rparr> = 2 # 3 # 1 # 1 # [] \<and>
   wf_tensor \<lparr>shape = [2, 3, 1, 1], data = ''rgbRGB''\<rparr> \<and>
   index_channels [2, 1, 0] \<lparr>shape = [2, 3, 1, 1], data = ''rgbRGB''\<rparr>
     = Inr \<lparr>shape = [2, 3, 1, 1], data = ''bgrBGR''\<rparr> \<and>
   index_channels [2, 1, 0] \<lparr>shape = [2, 3, 1, 1], data = ''bgrBGR''\<rparr>
     = Inr \<lparr>shape = [2, 3, 1, 1], data = ''rgbRGB''\<rparr> \<and>
   forward Inr \<lparr>shape = [2, 3, 1, 1], data = ''rgbRGB''\<rparr>
     = Inr \<lparr>shape = [2, 3, 1, 1], data = ''rgbRGB''\<rparr>"
  using permutation_involution [of "\<lparr>shape = [2, 3, 1, 1], data = ''rgbRGB''\<rparr>" 2 1 1 "[]"]
  by (auto simp: wf_tensor_def index_channels_def gather_def upt_conv_Cons)

text \<open>
  Claim C9, as amended. On a 4-D tensor with 3 channels the permutation keeps the shape
  (batch, channel count, height, width) and the number of elements, and the element at
  \<open>(b, c, h, w)\<close> of the result is the input's element at \<open>(b, [2,1,0] ! c, h, w)\<close>.
\<close>

theorem permutation_frame:
  assumes "shape x = [B, 3, H, W]"
  shows "\<exists>y. index_channels [2, 1, 0] x = Inr y \<and> shape y = shape x \<and>
           length (data y) = B * 3 * H * W \<and>
           (\<forall>b < B. \<forall>c < 3. \<forall>h < H. \<forall>w < W.
              elem y [b, c, h, w] = elem x [b, [2, 1, 0] ! c, h, w])"
proof -
  let ?y = "\<lparr>shape = [B, 3, H, W],
             data = gather B 3 [2, 1, 0] (H * W * prod_list []) (data x)\<rparr>"
  have y: "index_channels [2, 1, 0] x = Inr ?y"
    using assms(1) by (rule index_channels_3)
  have len: "length (data ?y) = B * 3 * H * W"
    by (simp only: tensor.select_convs gathered_length)
  have el: "elem ?y [b, c, h, w] = elem x [b, [2, 1, 0] ! c, h, w]"
    if "b < B" "c < 3" "h < H" "w < W" for b c h w
    using assms that by (rule gathered_elem)
  from y len el assms(1) show ?thesis by auto
qed

theorem permutation_frame_witness:
  "shape \<lparr>shape = [1, 3, 2, 2], data = [0 ..< 12]\<rparr> = [1, 3, 2, 2] \<and>
   (\<exists>y. index_channels [2, 1, 0] \<lparr>shape = [1, 3, 2, 2], data = [0 ..< 12]\<rparr> = Inr y \<and>
        shape y = [1, 3, 2, 2] \<and> elem y [0, 0, 1, 0] = 10 \<and> elem y [0, 1, 1, 0] = 6 \<and>
        elem y [0, 2, 1, 0] = 2)"
proof -
  let ?x = "\<lparr>shape = [1, 3, 2, 2], data = [0 ..< 12]\<rparr>"
  have sh: "shape ?x = [1, 3, 2, 2]" by simp
  from permutation_frame [OF sh] obtain y where
    y: "index_channels [2, 1, 0] ?x = Inr y" "shape y = shape ?x"
    and el: "\<forall>b<1. \<forall>c<3. \<forall>h<2. \<forall>w<2. elem y [b, c, h, w] = elem ?x [b, [2, 1, 0] ! c, h, w]"
    by blast
  from el have "elem y [0, 0, 1, 0] = elem ?x [0, 2, 1, 0]"
    "elem y [0, 1, 1, 0] = elem ?x [0, 1, 1, 0]" "elem y [0, 2, 1, 0] = elem ?x [0, 0, 1, 0]"
    by force+
  then have "elem y [0, 0, 1, 0] = 10" "elem y [0, 1, 1, 0] = 6" "elem y [0, 2, 1, 0] = 2"
    by (simp_all add: elem_def offset_def)
  with sh y show ?thesis by auto
qed

text \<open>
  The restriction to 3 channels is needed. Indexing a tensor with 4 channels succeeds
  and returns 3 of them, so the shape changes; with 2 channels it raises.
\<close>

theorem permutation_frame_counterexample:
  "index_channels [2, 1, 0] \<lparr>shape = [1, 4, 1, 1], data = ''rgba''\<rparr>
     = Inr \<lparr>shape = [1, 3, 1, 1], data = ''bgr''\<rparr> \<and>
   shape \<lparr>shape = [1, 3, 1, 1], data = ''bgr''\<rparr>
     \<noteq> shape \<lparr>shape = [1, 4, 1, 1], data = ''rgba''\<rparr> \<and>
   index_channels [2, 1, 0] \<lparr>shape = [1, 2, 1, 1], data = ''rg''\<rparr> = Inl IndexError"
  by (simp add: index_channels_def gather_def upt_conv_Cons)

section \<open>Properties of the script\<close>

lemma shape_torch_rand: "shape (torch_rand L sizes) = sizes"
  by (simp add: torch_rand_def)

lemma convert_args_declared: "shape x = [1, 3, 64, 64] \<Longrightarrow> convert_args x = declared"
  by (simp add: convert_args_def declared_def)

lemma script_run:
  "script L w =
     (case files w ckpt_path of
        None \<Rightarrow> (Inl FileNotFoundError, logged 2 w)
      | Some content \<Rightarrow>
     (case unpickle L content of
        Inl e \<Rightarrow> (Inl e, logged 2 w)
      | Inr ckpt \<Rightarrow>
     (case select_state_dict ckpt of
        Inl e \<Rightarrow> (Inl e, logged 2 w)
      | Inr sd \<Rightarrow>
     (case load_state_dict (SRVGGNetCompact L cfg) sd True of
        Inl e \<Rightarrow> (Inl e, logged 3 w)
      | Inr m \<Rightarrow>
     (case jit_trace L (RGBWrapper L (eval m)) (torch_rand L [1, 3, 64, 64]) of
        Inl e \<Rightarrow> (Inl e, logged 7 w)
      | Inr g \<Rightarrow>
     (case ct_convert L g declared of
        Inl e \<Rightarrow> (Inl e, logged 8 w)
      | Inr ml \<Rightarrow>
     (case write_package L ml out_path (files w) of
        Inl (e, left) \<Rightarrow> (Inl e, (logged 9 w)\<lparr>files := (files w)(out_path := left)\<rparr>)
      | Inr package \<Rightarrow>
          if stdout_can_encode L (environ w) done_message
          then (Inr (), w\<lparr>files := (files w)(out_path \<mapsto> package),
                          stdout := stdout w @ [done_message],
                          events := events w @ stage_events\<rparr>)
          else (Inl UnicodeEncodeError,
                w\<lparr>files := (files w)(out_path \<mapsto> package),
                   events := events w @ stage_events\<rparr>))))))))"
  by (simp add: script_def then_do_def call_def torch_load_def save_def print_def logged_def
      stage_events_def convert_args_declared shape_torch_rand Let_def
      split: option.splits sum.splits prod.splits)

lemma py_contains_iff: "py_contains k d \<longleftrightarrow> map_of d k \<noteq> None"
  by (simp add: py_contains_def map_of_eq_None_iff)

text \<open>
  Claim C2. A checkpoint that has the key \<open>params\<close> yields the value stored under it,
  whatever else it holds; any other checkpoint is itself the state dictionary. The
  lookup never raises.
\<close>

theorem checkpoint_layouts:
  "(py_contains ''params'' ckpt \<longrightarrow>
      (\<exists>v. map_of ckpt ''params'' = Some v \<and> select_state_dict ckpt = Inr v)) \<and>
   (\<not> py_contains ''params'' ckpt \<longrightarrow> select_state_dict ckpt = Inr (PDict ckpt)) \<and>
   (\<forall>ckpt'. py_contains ''params'' ckpt \<and> map_of ckpt' ''params'' = map_of ckpt ''params'' \<longrightarrow>
      select_state_dict ckpt' = select_state_dict ckpt)"
  by (auto simp: select_state_dict_def py_getitem_def py_contains_iff)

theorem checkpoint_layouts_witness:
  "py_contains ''params'' [(''params'', PDict [(''w'', POther)]), (''params_ema'', POther :: int pyobj)] \<and>
   select_state_dict [(''params'', PDict [(''w'', POther)]), (''params_ema'', POther :: int pyobj)]
     = Inr (PDict [(''w'', POther)]) \<and>
   \<not> py_contains ''params'' [(''w'', POther :: int pyobj)] \<and>
   select_state_dict [(''w'', POther :: int pyobj)] = Inr (PDict [(''w'', POther)]) \<and>
   select_state_dict [(''iter'', POther), (''params'', PDict [(''w'', POther :: int pyobj)])]
     = select_state_dict [(''params'', PDict [(''w'', POther)]), (''params_ema'', POther)]"
proof -
  let ?nested = "[(''params'', PDict [(''w'', POther)]), (''params_ema'', POther :: int pyobj)]"
  let ?other = "[(''iter'', POther), (''params'', PDict [(''w'', POther :: int pyobj)])]"
  let ?raw = "[(''w'', POther :: int pyobj)]"
  have in1: "py_contains ''params'' ?nested" and out1: "\<not> py_contains ''params'' ?raw"
    by (simp_all add: py_contains_def)
  have same: "map_of ?other ''params'' = map_of ?nested ''params''"
    by simp
  from checkpoint_layouts [of ?nested] in1 same
  have "select_state_dict ?nested = Inr (PDict [(''w'', POther)])"
    and "select_state_dict ?other = select_state_dict ?nested"
    by auto
  moreover from checkpoint_layouts [of ?raw] out1
  have "select_state_dict ?raw = Inr (PDict ?raw)"
    by blast
  ultimately show ?thesis
    using in1 out1 by simp
qed


lemma demo_load:
  "load_state_dict (SRVGGNetCompact demo_libs cfg)
      (PDict [(''body.0.weight'', PTensor \<lparr>shape = [2], data = [7, 9]\<rparr>)]) True
    = Inr \<lparr>config = cfg, params = [(''body.0.weight'', \<lparr>shape = [2], data = [7, 9]\<rparr>)],
           training = True\<rparr>"
  by (simp add: load_state_dict_def SRVGGNetCompact_def demo_libs_def mismatched_def
      unexpected_keys_def missing_keys_def copy_param_def)

lemma demo_load_raw:
  "load_state_dict (SRVGGNetCompact demo_libs cfg)
      (PDict [(''body.0.weight'', PTensor \<lparr>shape = [2], data = [7, 9]\<rparr>),
              (''body.1.weight'', PTensor \<lparr>shape = [2], data = [8, 8]\<rparr>)]) True
    = Inl RuntimeError"
  by (simp add: load_state_dict_def SRVGGNetCompact_def demo_libs_def mismatched_def
      unexpected_keys_def missing_keys_def copy_param_def)

lemma demo_select:
  "select_state_dict [(''params'', PDict [(''body.0.weight'', PTensor \<lparr>shape = [2], data = [7, 9::int]\<rparr>)]),
                  (''iter'', POther)]
    = Inr (PDict [(''body.0.weight'', PTensor \<lparr>shape = [2], data = [7, 9]\<rparr>)])"
  by (simp add: select_state_dict_def py_contains_def py_getitem_def)

lemma demo_run:
  "script demo_libs (demo_world ''nested'') =
     (Inr (), \<lparr>files = [ckpt_path \<mapsto> ''nested'', out_path \<mapsto> ''package''],
               stdout = [done_message], argv = [''convert_to_coreml2.py''],
               environ = Map.empty, events = stage_events\<rparr>)"
proof -
  have lib: "unpickle demo_libs ''nested'' =
      Inr [(''params'', PDict [(''body.0.weight'', PTensor \<lparr>shape = [2], data = [7, 9]\<rparr>)]),
           (''iter'', POther)]"
    "jit_trace demo_libs f x = Inr (shape x)" "ct_convert demo_libs g k = Inr (g, k)"
    "write_package demo_libs ml path fs = Inr ''package''"
    "stdout_can_encode demo_libs Map.empty line" for f x g k ml path fs line
    by (simp_all add: demo_libs_def stdout_can_encode_def)
  show ?thesis
    by (simp add: script_run demo_world_def logged_def lib demo_select demo_load)
qed


lemma length_stage_events: "length stage_events = 10"
  by (simp add: stage_events_def)

lemma script_events:
  "events (snd (script L w)) = events w @ take 2 stage_events \<or>
   events (snd (script L w)) = events w @ take 3 stage_events \<or>
   events (snd (script L w)) = events w @ take 7 stage_events \<or>
   events (snd (script L w)) = events w @ take 8 stage_events \<or>
   events (snd (script L w)) = events w @ take 9 stage_events \<or>
   events (snd (script L w)) = events w @ take 10 stage_events"
  by (simp add: script_run logged_def length_stage_events split: option.splits sum.splits)

lemma trace_of_cases:
  "trace_of L w \<in> (\<lambda>n. take n stage_events) ` {2, 3, 7, 8, 9, 10}"
  using script_events [of L w] by (auto simp: trace_of_def)

lemma trace_of_prefix: "\<exists>n \<le> length stage_events. trace_of L w = take n stage_events"
proof -
  from trace_of_cases [of L w] obtain n
    where n: "n \<in> {2, 3, 7, 8, 9, 10}" "trace_of L w = take n stage_events"
    by auto
  from n(1) have "n \<le> length stage_events"
    by (auto simp: length_stage_events)
  with n(2) show ?thesis by blast
qed

lemma wrapper_reorders:
  assumes "shape x = [B, 3, H, W]"
  shows "\<exists>px. swaps_first_third x px \<and>
           RGBWrapper L m x =
             (case net_forward L m px of Inl e \<Rightarrow> Inl e
              | Inr out \<Rightarrow> index_channels [2, 1, 0] out) \<and>
           (\<forall>out B' H' W'. net_forward L m px = Inr out \<and> shape out = [B', 3, H', W'] \<longrightarrow>
              (\<exists>y. RGBWrapper L m x = Inr y \<and> swaps_first_third out y))"
proof -
  from index_channels_swaps [OF assms] obtain px
    where px: "index_channels [2, 1, 0] x = Inr px" "swaps_first_third x px"
    by blast
  have fw: "RGBWrapper L m x =
      (case net_forward L m px of Inl e \<Rightarrow> Inl e | Inr out \<Rightarrow> index_channels [2, 1, 0] out)"
    using px(1) by (simp add: RGBWrapper_def forward_def contiguous_def split: sum.splits)
  have "\<exists>y. RGBWrapper L m x = Inr y \<and> swaps_first_third out y"
    if "net_forward L m px = Inr out \<and> shape out = [B', 3, H', W']" for out B' H' W'
  proof -
    from that index_channels_swaps [of out B' H' W'] obtain y
      where "index_channels [2, 1, 0] out = Inr y" "swaps_first_third out y"
      by blast
    with that fw show ?thesis by simp
  qed
  with px(2) fw show ?thesis by blast
qed

text \<open>
  Claim C3. The calls of any run are an initial part of the fixed sequence construct,
  load, load-state-dict, eval, wrap, example input, trace, convert, save, print. The run
  succeeds exactly when the checkpoint file is read and unpickled, the selected state
  dictionary loads into the fresh network, the wrapper of the evaluated network traces on
  the example input, the traced graph converts, the converted model is written and the
  final line can be printed: each stage takes the value the stage before it returned.
  Once the writer has succeeded the run has made all the calls and the package is stored
  under the output path, whether or not the final line can be printed. The
  value that is traced is the channel-reordering wrapper of the loaded network: on a 4-D
  input with 3 channels it swaps the first and third channel, runs the network on the
  result and swaps the first and third channel of the network's output.
\<close>

theorem pipeline_order:
  "(\<exists>n \<le> length stage_events. trace_of L w = take n stage_events) \<and>
   (fst (script L w) = Inr () \<longleftrightarrow>
      (\<exists>content ckpt sd m g ml package.
         files w ckpt_path = Some content \<and> unpickle L content = Inr ckpt \<and>
         select_state_dict ckpt = Inr sd \<and>
         load_state_dict (SRVGGNetCompact L cfg) sd True = Inr m \<and>
         jit_trace L (RGBWrapper L (eval m)) (torch_rand L [1, 3, 64, 64]) = Inr g \<and>
         ct_convert L g (convert_args (torch_rand L [1, 3, 64, 64])) = Inr ml \<and>
         write_package L ml out_path (files w) = Inr package \<and>
         stdout_can_encode L (environ w) done_message)) \<and>
   (\<forall>content ckpt sd m g ml package.
      files w ckpt_path = Some content \<and> unpickle L content = Inr ckpt \<and>
      select_state_dict ckpt = Inr sd \<and>
      load_state_dict (SRVGGNetCompact L cfg) sd True = Inr m \<and>
      jit_trace L (RGBWrapper L (eval m)) (torch_rand L [1, 3, 64, 64]) = Inr g \<and>
      ct_convert L g (convert_args (torch_rand L [1, 3, 64, 64])) = Inr ml \<and>
      write_package L ml out_path (files w) = Inr package \<longrightarrow>
      files (snd (script L w)) = (files w)(out_path \<mapsto> package) \<and>
      trace_of L w = stage_events) \<and>
   (\<forall>m x B H W. shape x = [B, 3, H, W] \<longrightarrow>
      (\<exists>px. swaps_first_third x px \<and>
         RGBWrapper L m x =
           (case net_forward L m px of Inl e \<Rightarrow> Inl e
            | Inr out \<Rightarrow> index_channels [2, 1, 0] out) \<and>
         (\<forall>out B' H' W'. net_forward L m px = Inr out \<and> shape out = [B', 3, H', W'] \<longrightarrow>
            (\<exists>y. RGBWrapper L m x = Inr y \<and> swaps_first_third out y))))"
proof -
  have success: "fst (script L w) = Inr () \<longleftrightarrow>
      (\<exists>content ckpt sd m g ml package.
         files w ckpt_path = Some content \<and> unpickle L content = Inr ckpt \<and>
         select_state_dict ckpt = Inr sd \<and>
         load_state_dict (SRVGGNetCompact L cfg) sd True = Inr m \<and>
         jit_trace L (RGBWrapper L (eval m)) (torch_rand L [1, 3, 64, 64]) = Inr g \<and>
         ct_convert L g declared = Inr ml \<and>
         write_package L ml out_path (files w) = Inr package \<and>
         stdout_can_encode L (environ w) done_message)"
    by (auto simp: script_run split: option.splits sum.splits prod.splits)
  have written: "files (snd (script L w)) = (files w)(out_path \<mapsto> package) \<and>
      trace_of L w = stage_events"
    if "files w ckpt_path = Some content \<and> unpickle L content = Inr ckpt \<and>
      select_state_dict ckpt = Inr sd \<and>
      load_state_dict (SRVGGNetCompact L cfg) sd True = Inr m \<and>
      jit_trace L (RGBWrapper L (eval m)) (torch_rand L [1, 3, 64, 64]) = Inr g \<and>
      ct_convert L g declared = Inr ml \<and>
      write_package L ml out_path (files w) = Inr package"
    for content ckpt sd m g ml package
    using that by (simp add: script_run trace_of_def)
  have eq: "convert_args (torch_rand L [1, 3, 64, 64]) = declared"
    by (simp add: convert_args_declared shape_torch_rand)
  show ?thesis
    unfolding eq
    apply (intro conjI)
       apply (rule trace_of_prefix)
      apply (rule success)
     apply (intro allI impI, rule written, assumption)
    apply (intro allI impI, rule wrapper_reorders, assumption)
    done
qed

theorem pipeline_order_witness:
  "fst (script demo_libs (demo_world ''nested'')) = Inr () \<and>
   trace_of demo_libs (demo_world ''nested'') = stage_events \<and>
   files (snd (script demo_libs (demo_world ''nested''))) out_path = Some ''package'' \<and>
   shape \<lparr>shape = [1, 3, 1, 2], data = [1, 2, 3, 4, 5, 6 :: int]\<rparr> = [1, 3, 1, 2] \<and>
   RGBWrapper demo_libs (eval (SRVGGNetCompact demo_libs cfg))
       \<lparr>shape = [1, 3, 1, 2], data = [1, 2, 3, 4, 5, 6]\<rparr>
     = Inr \<lparr>shape = [1, 3, 1, 2], data = [0, 0, 0, 0, 5, 6]\<rparr>"
proof -
  let ?x = "\<lparr>shape = [1, 3, 1, 2], data = [1, 2, 3, 4, 5, 6 :: int]\<rparr>"
  let ?px = "\<lparr>shape = [1, 3, 1, 2], data = [5, 6, 3, 4, 1, 2 :: int]\<rparr>"
  let ?net = "eval (SRVGGNetCompact demo_libs cfg)"
  note inst = pipeline_order [of demo_libs "demo_world ''nested''"]
  note success = conjunct1 [OF conjunct2 [OF inst]]
  note written = conjunct1 [OF conjunct2 [OF conjunct2 [OF inst]]]
  note wrapper = conjunct2 [OF conjunct2 [OF conjunct2 [OF inst]]]
  have ok: "fst (script demo_libs (demo_world ''nested'')) = Inr ()"
    by (simp add: demo_run)
  with success written have tr: "trace_of demo_libs (demo_world ''nested'') = stage_events"
    by blast
  have fl: "files (snd (script demo_libs (demo_world ''nested''))) out_path = Some ''package''"
    by (simp add: demo_run)
  have sh: "shape ?x = [1, 3, 1, 2]" by simp
  have ix: "index_channels [2, 1, 0] ?x = Inr ?px"
    by (simp add: index_channels_def gather_def upt_conv_Cons)
  from wrapper [rule_format, OF sh, of ?net] obtain px
    where px: "swaps_first_third ?x px"
      and wr: "RGBWrapper demo_libs ?net ?x =
        (case net_forward demo_libs ?net px of Inl e \<Rightarrow> Inl e
         | Inr out \<Rightarrow> index_channels [2, 1, 0] out)"
    by blast
  have "RGBWrapper demo_libs ?net ?x = Inr \<lparr>shape = [1, 3, 1, 2], data = [0, 0, 0, 0, 5, 6]\<rparr>"
    using ix
    by (simp add: RGBWrapper_def forward_def contiguous_def demo_libs_def
        index_channels_def gather_def upt_conv_Cons)
  with ok tr fl sh show ?thesis by simp
qed

lemma no_save_before_9:
  assumes "n \<le> 8"
  shows "list_all (\<lambda>ev. case ev of EvSave p \<Rightarrow> False | _ \<Rightarrow> True) (take n stage_events)"
proof -
  have "list_all (\<lambda>ev. case ev of EvSave p \<Rightarrow> False | _ \<Rightarrow> True) (take 8 stage_events)"
    by (simp add: stage_events_def)
  moreover from assms have "take n stage_events = take n (take 8 stage_events)"
    by (simp add: min_def)
  ultimately show ?thesis
    by (metis list_all_iff in_set_takeD)
qed

lemma early_failure:
  assumes "script L w = (Inl e, logged n w)" and "n \<le> 8"
  shows "fails_without_saving L w e"
  using assms no_save_before_9 [of n]
  by (simp add: fails_without_saving_def trace_of_def logged_def)

text \<open>
  Claim C4. An error raised by reading or unpickling the checkpoint, by
  \<open>load_state_dict\<close>, by the tracer or by the converter is the outcome of the run; in each
  case the run makes no call to \<open>save\<close> and leaves every file as it was.
\<close>

theorem errors_propagate:
  "(files w ckpt_path = None \<longrightarrow> fails_without_saving L w FileNotFoundError) \<and>
   (\<forall>content e.
      files w ckpt_path = Some content \<and> unpickle L content = Inl e \<longrightarrow>
      fails_without_saving L w e) \<and>
   (\<forall>content ckpt sd e.
      files w ckpt_path = Some content \<and> unpickle L content = Inr ckpt \<and>
      select_state_dict ckpt = Inr sd \<and>
      load_state_dict (SRVGGNetCompact L cfg) sd True = Inl e \<longrightarrow>
      fails_without_saving L w e) \<and>
   (\<forall>content ckpt sd m e.
      files w ckpt_path = Some content \<and> unpickle L content = Inr ckpt \<and>
      select_state_dict ckpt = Inr sd \<and>
      load_state_dict (SRVGGNetCompact L cfg) sd True = Inr m \<and>
      jit_trace L (RGBWrapper L (eval m)) (torch_rand L [1, 3, 64, 64]) = Inl e \<longrightarrow>
      fails_without_saving L w e) \<and>
   (\<forall>content ckpt sd m g e.
      files w ckpt_path = Some content \<and> unpickle L content = Inr ckpt \<and>
      select_state_dict ckpt = Inr sd \<and>
      load_state_dict (SRVGGNetCompact L cfg) sd True = Inr m \<and>
      jit_trace L (RGBWrapper L (eval m)) (torch_rand L [1, 3, 64, 64]) = Inr g \<and>
      ct_convert L g (convert_args (torch_rand L [1, 3, 64, 64])) = Inl e \<longrightarrow>
      fails_without_saving L w e)"
proof (intro conjI allI impI)
  assume "files w ckpt_path = None"
  then have "script L w = (Inl FileNotFoundError, logged 2 w)"
    by (simp add: script_run)
  then show "fails_without_saving L w FileNotFoundError"
    by (rule early_failure) simp
next
  fix content e
  assume "files w ckpt_path = Some content \<and> unpickle L content = Inl e"
  then have "script L w = (Inl e, logged 2 w)"
    by (simp add: script_run)
  then show "fails_without_saving L w e"
    by (rule early_failure) simp
next
  fix content ckpt sd e
  assume "files w ckpt_path = Some content \<and> unpickle L content = Inr ckpt \<and>
      select_state_dict ckpt = Inr sd \<and>
      load_state_dict (SRVGGNetCompact L cfg) sd True = Inl e"
  then have "script L w = (Inl e, logged 3 w)"
    by (simp add: script_run)
  then show "fails_without_saving L w e"
    by (rule early_failure) simp
next
  fix content ckpt sd m e
  assume "files w ckpt_path = Some content \<and> unpickle L content = Inr ckpt \<and>
      select_state_dict ckpt = Inr sd \<and>
      load_state_dict (SRVGGNetCompact L cfg) sd True = Inr m \<and>
      jit_trace L (RGBWrapper L (eval m)) (torch_rand L [1, 3, 64, 64]) = Inl e"
  then have "script L w = (Inl e, logged 7 w)"
    by (simp add: script_run)
  then show "fails_without_saving L w e"
    by (rule early_failure) simp
next
  fix content ckpt sd m g e
  assume "files w ckpt_path = Some content \<and> unpickle L content = Inr ckpt \<and>
      select_state_dict ckpt = Inr sd \<and>
      load_state_dict (SRVGGNetCompact L cfg) sd True = Inr m \<and>
      jit_trace L (RGBWrapper L (eval m)) (torch_rand L [1, 3, 64, 64]) = Inr g \<and>
      ct_convert L g (convert_args (torch_rand L [1, 3, 64, 64])) = Inl e"
  then have "script L w = (Inl e, logged 8 w)"
    by (simp add: script_run convert_args_declared shape_torch_rand)
  then show "fails_without_saving L w e"
    by (rule early_failure) simp
qed


lemma demo_files:
  "files (demo_world c) ckpt_path = Some c"
  "files ((demo_world c)\<lparr>files := Map.empty\<rparr>) ckpt_path = None"
  by (simp_all add: demo_world_def)

lemma demo_unpickle:
  "unpickle demo_libs ''nested'' =
     Inr [(''params'', PDict [(''body.0.weight'', PTensor \<lparr>shape = [2], data = [7, 9]\<rparr>)]),
          (''iter'', POther)]"
  "unpickle demo_libs ''raw'' =
     Inr [(''body.0.weight'', PTensor \<lparr>shape = [2], data = [7, 9]\<rparr>),
          (''body.1.weight'', PTensor \<lparr>shape = [2], data = [8, 8]\<rparr>)]"
  "unpickle demo_libs ''garbage'' = Inl (LibraryError ''UnpicklingError'')"
  by (simp_all add: demo_libs_def)

lemma demo_select_raw:
  "select_state_dict [(''body.0.weight'', PTensor \<lparr>shape = [2], data = [7, 9 :: int]\<rparr>),
                      (''body.1.weight'', PTensor \<lparr>shape = [2], data = [8, 8]\<rparr>)]
    = Inr (PDict [(''body.0.weight'', PTensor \<lparr>shape = [2], data = [7, 9]\<rparr>),
                  (''body.1.weight'', PTensor \<lparr>shape = [2], data = [8, 8]\<rparr>)])"
  by (simp add: select_state_dict_def py_contains_def)

theorem errors_propagate_witness:
  "fails_without_saving demo_libs ((demo_world ''nested'')\<lparr>files := Map.empty\<rparr>) FileNotFoundError \<and>
   fails_without_saving demo_libs (demo_world ''garbage'') (LibraryError ''UnpicklingError'') \<and>
   fails_without_saving demo_libs (demo_world ''raw'') RuntimeError \<and>
   fails_without_saving (demo_libs\<lparr>jit_trace := \<lambda>f x. Inl (LibraryError ''trace'')\<rparr>)
     (demo_world ''nested'') (LibraryError ''trace'') \<and>
   fails_without_saving (demo_libs\<lparr>ct_convert := \<lambda>g k. Inl (LibraryError ''convert'')\<rparr>)
     (demo_world ''nested'') (LibraryError ''convert'')"
proof (intro conjI)
  show "fails_without_saving demo_libs ((demo_world ''nested'')\<lparr>files := Map.empty\<rparr>) FileNotFoundError"
    using errors_propagate [of "(demo_world ''nested'')\<lparr>files := Map.empty\<rparr>" demo_libs]
    by (simp add: demo_files)
next
  have "files (demo_world ''garbage'') ckpt_path = Some ''garbage'' \<and>
      unpickle demo_libs ''garbage'' = Inl (LibraryError ''UnpicklingError'')"
    by (simp add: demo_files demo_unpickle)
  with errors_propagate [of "demo_world ''garbage''" demo_libs]
  show "fails_without_saving demo_libs (demo_world ''garbage'') (LibraryError ''UnpicklingError'')"
    by blast
next
  have "files (demo_world ''raw'') ckpt_path = Some ''raw'' \<and>
      unpickle demo_libs ''raw'' =
        Inr [(''body.0.weight'', PTensor \<lparr>shape = [2], data = [7, 9]\<rparr>),
             (''body.1.weight'', PTensor \<lparr>shape = [2], data = [8, 8]\<rparr>)] \<and>
      select_state_dict [(''body.0.weight'', PTensor \<lparr>shape = [2], data = [7, 9 :: int]\<rparr>),
                         (''body.1.weight'', PTensor \<lparr>shape = [2], data = [8, 8]\<rparr>)]
        = Inr (PDict [(''body.0.weight'', PTensor \<lparr>shape = [2], data = [7, 9]\<rparr>),
                      (''body.1.weight'', PTensor \<lparr>shape = [2], data = [8, 8]\<rparr>)]) \<and>
      load_state_dict (SRVGGNetCompact demo_libs cfg)
        (PDict [(''body.0.weight'', PTensor \<lparr>shape = [2], data = [7, 9]\<rparr>),
                (''body.1.weight'', PTensor \<lparr>shape = [2], data = [8, 8]\<rparr>)]) True
        = Inl RuntimeError"
    by (simp add: demo_files demo_unpickle demo_select_raw demo_load_raw)
  with errors_propagate [of "demo_world ''raw''" demo_libs]
  show "fails_without_saving demo_libs (demo_world ''raw'') RuntimeError"
    by blast
next
  let ?L = "demo_libs\<lparr>jit_trace := \<lambda>f x. Inl (LibraryError ''trace'')\<rparr>"
  let ?m = "\<lparr>config = cfg, params = [(''body.0.weight'', \<lparr>shape = [2], data = [7, 9]\<rparr>)],
             training = True\<rparr>"
  have same: "SRVGGNetCompact ?L cfg = SRVGGNetCompact demo_libs cfg"
    by (simp add: SRVGGNetCompact_def)
  have "files (demo_world ''nested'') ckpt_path = Some ''nested'' \<and>
      unpickle ?L ''nested'' =
        Inr [(''params'', PDict [(''body.0.weight'', PTensor \<lparr>shape = [2], data = [7, 9]\<rparr>)]),
             (''iter'', POther)] \<and>
      select_state_dict
        [(''params'', PDict [(''body.0.weight'', PTensor \<lparr>shape = [2], data = [7, 9 :: int]\<rparr>)]),
         (''iter'', POther)]
        = Inr (PDict [(''body.0.weight'', PTensor \<lparr>shape = [2], data = [7, 9]\<rparr>)]) \<and>
      load_state_dict (SRVGGNetCompact ?L cfg)
        (PDict [(''body.0.weight'', PTensor \<lparr>shape = [2], data = [7, 9]\<rparr>)]) True = Inr ?m \<and>
      jit_trace ?L (RGBWrapper ?L (eval ?m)) (torch_rand ?L [1, 3, 64, 64])
        = Inl (LibraryError ''trace'')"
    using demo_unpickle(1) by (simp add: demo_files demo_select demo_load same)
  with errors_propagate [of "demo_world ''nested''" ?L]
  show "fails_without_saving ?L (demo_world ''nested'') (LibraryError ''trace'')"
    by blast
next
  let ?L = "demo_libs\<lparr>ct_convert := \<lambda>g k. Inl (LibraryError ''convert'')\<rparr>"
  let ?m = "\<lparr>config = cfg, params = [(''body.0.weight'', \<lparr>shape = [2], data = [7, 9]\<rparr>)],
             training = True\<rparr>"
  have same: "SRVGGNetCompact ?L cfg = SRVGGNetCompact demo_libs cfg"
    by (simp add: SRVGGNetCompact_def)
  have tr: "jit_trace demo_libs f x = Inr (shape x)" for f x
    by (simp add: demo_libs_def)
  have "files (demo_world ''nested'') ckpt_path = Some ''nested'' \<and>
      unpickle ?L ''nested'' =
        Inr [(''params'', PDict [(''body.0.weight'', PTensor \<lparr>shape = [2], data = [7, 9]\<rparr>)]),
             (''iter'', POther)] \<and>
      select_state_dict
        [(''params'', PDict [(''body.0.weight'', PTensor \<lparr>shape = [2], data = [7, 9 :: int]\<rparr>)]),
         (''iter'', POther)]
        = Inr (PDict [(''body.0.weight'', PTensor \<lparr>shape = [2], data = [7, 9]\<rparr>)]) \<and>
      load_state_dict (SRVGGNetCompact ?L cfg)
        (PDict [(''body.0.weight'', PTensor \<lparr>shape = [2], data = [7, 9]\<rparr>)]) True = Inr ?m \<and>
      jit_trace ?L (RGBWrapper ?L (eval ?m)) (torch_rand ?L [1, 3, 64, 64])
        = Inr (shape (torch_rand ?L [1, 3, 64, 64])) \<and>
      ct_convert ?L (shape (torch_rand ?L [1, 3, 64, 64]))
        (convert_args (torch_rand ?L [1, 3, 64, 64])) = Inl (LibraryError ''convert'')"
    using demo_unpickle(1) by (simp add: demo_files demo_select demo_load same tr)
  with errors_propagate [of "demo_world ''nested''" ?L]
  show "fails_without_saving ?L (demo_world ''nested'') (LibraryError ''convert'')"
    by blast
qed


lemma demo_trace: "trace_of demo_libs (demo_world ''nested'') = stage_events"
  by (simp add: trace_of_def demo_run) (simp add: demo_world_def)








lemma fst_copy_param: "fst (copy_param sd kp) = fst kp"
  by (simp add: copy_param_def split: option.splits pyobj.splits)

lemma load_strict_keys:
  assumes "load_state_dict m (PDict sd) True = Inr m'"
  shows "set (map fst sd) = set (map fst (params m))"
proof -
  from assms have "unexpected_keys m sd = []" and "missing_keys m sd = []"
    by (auto simp: load_state_dict_def split: if_splits)
  then show ?thesis
    by (auto simp: unexpected_keys_def missing_keys_def filter_empty_conv)
qed

lemma load_strict_values:
  assumes "load_state_dict m (PDict sd) True = Inr m'" and "kp \<in> set (params m')"
  shows "map_of sd (fst kp) = Some (PTensor (snd kp))"
proof -
  from assms(1) have m': "params m' = map (copy_param sd) (params m)"
    and ok: "filter (mismatched sd) (params m) = []" and miss: "missing_keys m sd = []"
    by (auto simp: load_state_dict_def split: if_splits)
  from assms(2) m' obtain kq where kq: "kq \<in> set (params m)" "kp = copy_param sd kq"
    by auto
  from miss kq(1) have "py_contains (fst kq) sd"
    by (auto simp: missing_keys_def filter_empty_conv py_contains_def)
  then obtain v where v: "map_of sd (fst kq) = Some v"
    by (auto simp: py_contains_iff)
  from ok kq(1) have "\<not> mismatched sd kq"
    by (simp add: filter_empty_conv)
  with v obtain t where "v = PTensor t"
    by (cases v) (simp_all add: mismatched_def)
  with v kq(2) show ?thesis
    by (simp add: copy_param_def)
qed


text \<open>
  Claim C10. With \<open>strict\<close> set, a state dictionary whose keys are not exactly the
  module's parameter names is refused with \<open>RuntimeError\<close>; when loading succeeds the
  parameter names are unchanged and every parameter is the tensor the dictionary stores
  under its name. The script's only call passes \<open>strict = True\<close>, and a checkpoint whose
  state dictionary has other keys than the fresh network fails the run.
\<close>

theorem strict_weight_loading:
  "(set (map fst sd) \<noteq> set (map fst (params m)) \<longrightarrow>
      load_state_dict m (PDict sd) True = Inl RuntimeError) \<and>
   (\<forall>m'. load_state_dict m (PDict sd) True = Inr m' \<longrightarrow>
      set (map fst sd) = set (map fst (params m)) \<and>
      map fst (params m') = map fst (params m) \<and>
      (\<forall>kp \<in> set (params m'). map_of sd (fst kp) = Some (PTensor (snd kp)))) \<and>
   (\<forall>strict. EvLoadStateDict strict \<in> set (trace_of L w) \<longrightarrow> strict) \<and>
   (\<forall>content ckpt.
      files w ckpt_path = Some content \<and> unpickle L content = Inr ckpt \<and>
      select_state_dict ckpt = Inr (PDict sd) \<and>
      set (map fst sd) \<noteq> set (map fst (init_params L cfg)) \<longrightarrow>
      fst (script L w) = Inl RuntimeError)"
proof (intro conjI allI impI ballI)
  assume ne: "set (map fst sd) \<noteq> set (map fst (params m))"
  show "load_state_dict m (PDict sd) True = Inl RuntimeError"
  proof (cases "load_state_dict m (PDict sd) True")
    case (Inl e)
    then show ?thesis by (auto simp: load_state_dict_def split: if_splits)
  next
    case (Inr m')
    with ne load_strict_keys show ?thesis by blast
  qed
next
  fix m' assume "load_state_dict m (PDict sd) True = Inr m'"
  then show "set (map fst sd) = set (map fst (params m))" by (rule load_strict_keys)
next
  fix m' assume "load_state_dict m (PDict sd) True = Inr m'"
  then have "params m' = map (copy_param sd) (params m)"
    by (auto simp: load_state_dict_def split: if_splits)
  then show "map fst (params m') = map fst (params m)"
    by (simp add: fst_copy_param comp_def)
next
  fix m' kp assume "load_state_dict m (PDict sd) True = Inr m'" "kp \<in> set (params m')"
  then show "map_of sd (fst kp) = Some (PTensor (snd kp))" by (rule load_strict_values)
next
  fix strict assume "EvLoadStateDict strict \<in> set (trace_of L w)"
  with trace_of_cases [of L w] show strict
    by (auto simp: stage_events_def)
next
  fix content ckpt
  assume a: "files w ckpt_path = Some content \<and> unpickle L content = Inr ckpt \<and>
      select_state_dict ckpt = Inr (PDict sd) \<and>
      set (map fst sd) \<noteq> set (map fst (init_params L cfg))"
  have "load_state_dict (SRVGGNetCompact L cfg) (PDict sd) True = Inl RuntimeError"
  proof (cases "load_state_dict (SRVGGNetCompact L cfg) (PDict sd) True")
    case (Inl e)
    then show ?thesis by (auto simp: load_state_dict_def split: if_splits)
  next
    case (Inr m')
    from load_strict_keys [OF this] a show ?thesis by (simp add: SRVGGNetCompact_def)
  qed
  with a show "fst (script L w) = Inl RuntimeError"
    by (simp add: script_run)
qed


theorem strict_weight_loading_witness:
  "set (map fst [(''body.0.weight'', PTensor \<lparr>shape = [2], data = [7, 9 :: int]\<rparr>),
                 (''body.1.weight'', PTensor \<lparr>shape = [2], data = [8, 8]\<rparr>)])
     \<noteq> set (map fst (params (SRVGGNetCompact demo_libs cfg))) \<and>
   load_state_dict (SRVGGNetCompact demo_libs cfg)
      (PDict [(''body.0.weight'', PTensor \<lparr>shape = [2], data = [7, 9]\<rparr>),
              (''body.1.weight'', PTensor \<lparr>shape = [2], data = [8, 8]\<rparr>)]) True
     = Inl RuntimeError \<and>
   fst (script demo_libs (demo_world ''raw'')) = Inl RuntimeError \<and>
   load_state_dict (SRVGGNetCompact demo_libs cfg)
      (PDict [(''body.0.weight'', PTensor \<lparr>shape = [2], data = [7, 9]\<rparr>)]) True
     = Inr \<lparr>config = cfg, params = [(''body.0.weight'', \<lparr>shape = [2], data = [7, 9]\<rparr>)],
            training = True\<rparr> \<and>
   set (map fst [(''body.0.weight'', PTensor \<lparr>shape = [2], data = [7, 9 :: int]\<rparr>)])
     = set (map fst (params (SRVGGNetCompact demo_libs cfg))) \<and>
   EvLoadStateDict True \<in> set (trace_of demo_libs (demo_world ''nested''))"
proof -
  let ?raw = "[(''body.0.weight'', PTensor \<lparr>shape = [2], data = [7, 9 :: int]\<rparr>),
               (''body.1.weight'', PTensor \<lparr>shape = [2], data = [8, 8]\<rparr>)]"
  let ?good = "[(''body.0.weight'', PTensor \<lparr>shape = [2], data = [7, 9 :: int]\<rparr>)]"
  note inst = strict_weight_loading [where sd = ?raw and m = "SRVGGNetCompact demo_libs cfg"
      and L = demo_libs and w = "demo_world ''raw''"]
  have ne: "set (map fst ?raw) \<noteq> set (map fst (params (SRVGGNetCompact demo_libs cfg)))"
    by (simp add: SRVGGNetCompact_def demo_libs_def)
  with inst have refused: "load_state_dict (SRVGGNetCompact demo_libs cfg) (PDict ?raw) True
      = Inl RuntimeError"
    by blast
  have "files (demo_world ''raw'') ckpt_path = Some ''raw'' \<and>
      unpickle demo_libs ''raw'' = Inr ?raw \<and> select_state_dict ?raw = Inr (PDict ?raw) \<and>
      set (map fst ?raw) \<noteq> set (map fst (init_params demo_libs cfg))"
    by (simp add: demo_files demo_unpickle demo_select_raw) (simp add: demo_libs_def)
  with inst have run: "fst (script demo_libs (demo_world ''raw'')) = Inl RuntimeError"
    by blast
  from strict_weight_loading [where sd = ?good and m = "SRVGGNetCompact demo_libs cfg"
      and L = demo_libs and w = "demo_world ''nested''"] demo_load
  have same: "set (map fst ?good) = set (map fst (params (SRVGGNetCompact demo_libs cfg)))"
    by blast
  have "EvLoadStateDict True \<in> set (trace_of demo_libs (demo_world ''nested''))"
    by (simp add: demo_trace stage_events_def)
  with ne refused run demo_load same show ?thesis
    by simp
qed

end
